theory Spec2Isabelle
  imports Main "HOL-Library.Sublist"
begin

section \<open>The dashboard of react-dashboard/src/pages/Dashboard.js\<close>

text \<open>
  The component \<open>Dashboard\<close> holds six pieces of React state and three operations on
  them: \<open>fetchCDRs\<close> (a refresh cycle: list the records, verify each one, publish),
  \<open>filterCDRs\<close> (the search filter) and \<open>getStats\<close> (the four counters). The model
  below follows the source line by line. A state setter is an effect; an operation is
  the list of effects it performs, in order, and \<open>run\<close> applies them to a state.
  One call of an operation is modelled on its own: the effect hooks that call them
  (the timer of line 86, the re-filtering of line 92, the dismissal of the error after
  eight seconds) and the interleaving of two refresh cycles are not.
\<close>

subsection \<open>Strings and the built-ins of JavaScript used by the source\<close>

text \<open>
  A string is a list of code units. The model covers the code units below 256 (the
  Latin-1 range), where \<open>char\<close> has one value for each unit; on that range the three
  built-ins below are what ECMAScript specifies.

  \<open>String.prototype.toLowerCase\<close>: the letters A to Z (65 to 90) and the capital
  letters of Latin-1 (192 to 222, the multiplication sign 215 apart) move up by 32,
  every other unit stays.
\<close>

definition toLower :: "char \<Rightarrow> char" where
  "toLower c =
     (let n = (of_char c :: nat)
      in if (65 \<le> n \<and> n \<le> 90) \<or> (192 \<le> n \<and> n \<le> 222 \<and> n \<noteq> 215)
         then char_of (n + 32) else c)"

definition toLowerCase :: "string \<Rightarrow> string" where
  "toLowerCase s = map toLower s"

text \<open>
  \<open>String.prototype.trim\<close> removes white space and line terminators from both ends:
  TAB, LF, VT, FF, CR (9 to 13), SPACE (32) and NO-BREAK SPACE (160).
\<close>

definition isWhiteSpace :: "char \<Rightarrow> bool" where
  "isWhiteSpace c =
     (let n = (of_char c :: nat) in (9 \<le> n \<and> n \<le> 13) \<or> n = 32 \<or> n = 160)"

definition trim :: "string \<Rightarrow> string" where
  "trim s = rev (dropWhile isWhiteSpace (rev (dropWhile isWhiteSpace s)))"

text \<open>
  \<open>String.prototype.includes\<close>: \<open>includes_str s t\<close> is \<open>s.includes(t)\<close>, the
  search for \<open>t\<close> at every position of \<open>s\<close>, from the left (\<open>includes\<close> alone is a
  keyword of Isabelle).
\<close>

fun startsWith :: "string \<Rightarrow> string \<Rightarrow> bool" where
  "startsWith s [] = True"
| "startsWith [] (y # t) = False"
| "startsWith (x # s) (y # t) = (x = y \<and> startsWith s t)"

fun includes_str :: "string \<Rightarrow> string \<Rightarrow> bool" where
  "includes_str [] t = (t = [])"
| "includes_str (x # s) t = (startsWith (x # s) t \<or> includes_str s t)"

subsection \<open>Data\<close>

text \<open>
  The aggregate that \<open>getStats\<close> returns (source line 78).
\<close>

record stats =
  total :: nat
  verified :: nat
  withIPFS :: nat
  errors :: nat

text \<open>
  What the backend answers to a verification request: the source reads its field
  \<open>verified\<close> (line 32), a boolean by the interface of the client.
\<close>

record verifyRes =
  verified :: bool

text \<open>
  A call detail record. The source reads \<open>caller\<close>, \<open>callee\<close> and \<open>hash\<close> as strings
  (lines 58 to 60), tests \<open>ipfs_cid\<close> for presence before reading it (line 61),
  compares \<open>status\<close> with string literals (lines 75 and 77) and tests \<open>verified\<close> for
  truth (line 75). A field that is absent (or \<open>null\<close>) is \<open>None\<close>.
\<close>

record cdr =
  caller :: string
  callee :: string
  hash :: string
  ipfs_cid :: "string option"
  status :: "string option"
  verified :: "bool option"

text \<open>
  The source reads the field \<open>cdrs\<close> of the response of \<open>getAllCDRs\<close> and tests it
  for truth (line 25), so the field is a JavaScript value: an array of records, or
  anything else a value may be. \<open>JUndefined\<close> is the absent field.
\<close>

datatype js_value =
    JUndefined
  | JNull
  | JBoolean bool
  | JNumber int
  | JNaN
  | JString string
  | JObject
  | JArray "cdr list"

fun truthy :: "js_value \<Rightarrow> bool" where
  "truthy JUndefined = False"
| "truthy JNull = False"
| "truthy (JBoolean b) = b"
| "truthy (JNumber n) = (n \<noteq> 0)"
| "truthy JNaN = False"
| "truthy (JString s) = (s \<noteq> [])"
| "truthy JObject = True"
| "truthy (JArray xs) = True"

text \<open>
  A value thrown by a failing call, or the reason of a rejected promise. JavaScript
  lets any value be thrown: an \<open>Error\<close> object with its message, any other value
  (\<open>undefined\<close> and \<open>null\<close> among them), or an object whose property \<open>message\<close> is an
  accessor that itself throws.
\<close>

datatype js_error =
    Error string
  | Thrown js_value
  | Throwing_message js_error

text \<open>
  The read of \<open>err.message\<close> (line 34). No property of \<open>undefined\<close> or \<open>null\<close> can be
  read: the read throws a TypeError. An accessor that throws makes the read throw.
  Every other value gives its message, or \<open>undefined\<close> when it has none.
\<close>

fun read_message :: "js_error \<Rightarrow> js_error + string option" where
  "read_message (Error m) = Inr (Some m)"
| "read_message (Thrown v) =
     (if v = JUndefined \<or> v = JNull
      then Inl (Error ''TypeError: Cannot read properties of undefined or null'')
      else Inr None)"
| "read_message (Throwing_message e) = Inl e"

text \<open>
  The response of \<open>getAllCDRs\<close>: an object, of which the source reads \<open>cdrs\<close>.
\<close>

record response =
  cdrs :: js_value

text \<open>
  The module \<open>../api\<close> is imported, not defined, by the source: \<open>cdrAPI\<close> is a
  parameter of the model. \<open>getAllCDRs\<close> is the outcome of the list request of one
  cycle, \<open>verifyCDR i cid\<close> the outcome of the verification request for index \<open>i\<close>;
  \<open>Inl\<close> is a rejected promise.
\<close>

record cdrAPI =
  getAllCDRs :: "js_error + response"
  verifyCDR :: "nat \<Rightarrow> string option \<Rightarrow> js_error + verifyRes"

text \<open>
  The state of the component (lines 11 to 16). A date is the number of milliseconds
  that \<open>new Date()\<close> holds.
\<close>

type_synonym date = int

record state =
  cdrs :: "cdr list"
  filteredCdrs :: "cdr list"
  loading :: bool
  error :: "string option"
  searchTerm :: string
  lastRefresh :: date

definition initial :: "date \<Rightarrow> state" where
  "initial now =
     \<lparr>state.cdrs = [], filteredCdrs = [], loading = True, error = None,
      searchTerm = [], lastRefresh = now\<rparr>"

subsection \<open>Effects\<close>

text \<open>
  One constructor for each state setter of the component. Every call of a setter in
  the source passes a value, never an updater function, so a setter overwrites its
  piece of state.
\<close>

datatype effect =
    SetCdrs "cdr list"
  | SetFilteredCdrs "cdr list"
  | SetLoading bool
  | SetError "string option"
  | SetSearchTerm string
  | SetLastRefresh date

fun setState :: "state \<Rightarrow> effect \<Rightarrow> state" where
  "setState st (SetCdrs v) = st\<lparr>state.cdrs := v\<rparr>"
| "setState st (SetFilteredCdrs v) = st\<lparr>filteredCdrs := v\<rparr>"
| "setState st (SetLoading v) = st\<lparr>loading := v\<rparr>"
| "setState st (SetError v) = st\<lparr>error := v\<rparr>"
| "setState st (SetSearchTerm v) = st\<lparr>searchTerm := v\<rparr>"
| "setState st (SetLastRefresh v) = st\<lparr>lastRefresh := v\<rparr>"

definition run :: "effect list \<Rightarrow> state \<Rightarrow> state" where
  "run es st = foldl setState st es"

subsection \<open>fetchCDRs (lines 19 to 48)\<close>

text \<open>
  The callback of \<open>records.map\<close> (lines 29 to 37): an async function whose whole body
  is a \<open>try\<close> with a \<open>catch\<close>. The spread \<open>{ ...cdr, verified: v }\<close> is a record update.
  The \<open>catch\<close> block reads \<open>err.message\<close> for the warning before it returns: when that
  read throws, nothing catches it and the callback rejects. The warning written to
  the console is no part of the state and is left out.
\<close>

definition verifyOne :: "cdrAPI \<Rightarrow> nat \<Rightarrow> cdr \<Rightarrow> js_error + cdr" where
  "verifyOne api i c =
     (case verifyCDR api i (ipfs_cid c) of
        Inr verifyRes \<Rightarrow> Inr (c\<lparr>cdr.verified := Some (verifyRes.verified verifyRes)\<rparr>)
      | Inl err \<Rightarrow>
          (case read_message err of
             Inl e \<Rightarrow> Inl e
           | Inr msg \<Rightarrow> Inr (c\<lparr>cdr.verified := Some False\<rparr>)))"

text \<open>
  \<open>Promise.all\<close>: fulfilled with the values, in the order of the promises, when every
  promise is fulfilled; rejected when one is rejected (here with the reason of the
  first rejected promise in the order of the list; the source only logs the reason).
\<close>

fun promise_all :: "(js_error + 'a) list \<Rightarrow> js_error + 'a list" where
  "promise_all [] = Inr []"
| "promise_all (p # ps) =
     (case p of
        Inl e \<Rightarrow> Inl e
      | Inr x \<Rightarrow> (case promise_all ps of Inl e \<Rightarrow> Inl e | Inr xs \<Rightarrow> Inr (x # xs)))"

text \<open>
  The verification step (lines 28 to 38): \<open>records.map\<close> passes each record with its
  index, from 0.
\<close>

definition verifiedResults :: "cdrAPI \<Rightarrow> cdr list \<Rightarrow> js_error + cdr list" where
  "verifiedResults api records =
     promise_all (map (\<lambda>(i, c). verifyOne api i c) (enumerate 0 records))"

text \<open>
  The statements of the \<open>try\<close> block that can throw (lines 24 to 38). A truthy
  \<open>response.cdrs\<close> that is no array has no method \<open>map\<close>, and calling it throws a
  TypeError.
\<close>

definition fetch_try :: "cdrAPI \<Rightarrow> js_error + cdr list" where
  "fetch_try api =
     (case getAllCDRs api of
        Inl err \<Rightarrow> Inl err
      | Inr response \<Rightarrow>
          (case (if truthy (response.cdrs response) then response.cdrs response
                 else JArray []) of
             JArray records \<Rightarrow> verifiedResults api records
           | _ \<Rightarrow> Inl (Error ''records.map is not a function'')))"

text \<open>
  One refresh cycle, as the effects it performs in order: the two setters at the head
  of the \<open>try\<close> block; the two at its end when nothing was thrown, or the one of the
  \<open>catch\<close> block; the one of the \<open>finally\<close> block. \<open>now\<close> is what \<open>new Date()\<close> gives at
  line 41.
\<close>

definition fetchCDRs :: "cdrAPI \<Rightarrow> date \<Rightarrow> effect list" where
  "fetchCDRs api now =
     [SetLoading True, SetError None] @
     (case fetch_try api of
        Inr results \<Rightarrow> [SetCdrs results, SetLastRefresh now]
      | Inl err \<Rightarrow>
          [SetError (Some ''Failed to fetch CDR data. Please check if the backend is running.'')]) @
     [SetLoading False]"

subsection \<open>filterCDRs and handleSearch (lines 51 to 70)\<close>

text \<open>
  The predicate passed to \<open>cdrs.filter\<close> (lines 57 to 62). \<open>a && b\<close> is \<open>a\<close> when \<open>a\<close> is
  falsy, and an absent and an empty \<open>ipfs_cid\<close> are both falsy.
\<close>

definition matches :: "string \<Rightarrow> cdr \<Rightarrow> bool" where
  "matches searchValue c =
     (includes_str (toLowerCase (caller c)) (toLowerCase searchValue) \<or>
      includes_str (toLowerCase (callee c)) (toLowerCase searchValue) \<or>
      includes_str (toLowerCase (hash c)) (toLowerCase searchValue) \<or>
      (case ipfs_cid c of
         None \<Rightarrow> False
       | Some cid \<Rightarrow> cid \<noteq> [] \<and> includes_str (toLowerCase cid) (toLowerCase searchValue)))"

text \<open>
  \<open>filterCDRs\<close> reads the \<open>cdrs\<close> of the state it was created in. The empty string is
  the only falsy string, so \<open>!searchValue.trim()\<close> is \<open>trim searchValue = []\<close>.
\<close>

definition filterCDRs :: "state \<Rightarrow> string \<Rightarrow> effect list" where
  "filterCDRs st searchValue =
     (if trim searchValue = [] then [SetFilteredCdrs (state.cdrs st)]
      else [SetFilteredCdrs (filter (matches searchValue) (state.cdrs st))])"

definition handleSearch :: "state \<Rightarrow> string \<Rightarrow> effect list" where
  "handleSearch st searchValue = SetSearchTerm searchValue # filterCDRs st searchValue"

subsection \<open>getStats (lines 73 to 79)\<close>

text \<open>
  \<open>cdr.verified\<close> is truthy when it is \<open>true\<close>; \<open>cdr.ipfs_cid\<close> is truthy when it is a
  string that is not empty.
\<close>

definition getStats :: "state \<Rightarrow> stats" where
  "getStats st =
     \<lparr>total = length (state.cdrs st),
      stats.verified =
        length (filter (\<lambda>c. status c = Some ''verified'' \<or> cdr.verified c = Some True)
          (state.cdrs st)),
      withIPFS =
        length (filter (\<lambda>c. case ipfs_cid c of None \<Rightarrow> False | Some cid \<Rightarrow> cid \<noteq> [])
          (state.cdrs st)),
      errors =
        length (filter (\<lambda>c. status c = Some ''error'' \<or> status c = Some ''mismatch'')
          (state.cdrs st))\<rparr>"

subsection \<open>The filter as section 4.3 of the specification words it\<close>

text \<open>
  These two definitions follow the words of the specification, not the source: a
  record matches when the lowercase term is a substring of the lowercase \<open>caller\<close>,
  \<open>callee\<close>, \<open>hash\<close> or, when present, external storage reference; an empty or
  whitespace-only term gives the records back. They are what \<open>filterCDRs\<close> is compared
  with.
\<close>

definition spec_match :: "string \<Rightarrow> cdr \<Rightarrow> bool" where
  "spec_match t c =
     (sublist (toLowerCase t) (toLowerCase (caller c)) \<or>
      sublist (toLowerCase t) (toLowerCase (callee c)) \<or>
      sublist (toLowerCase t) (toLowerCase (hash c)) \<or>
      (case ipfs_cid c of
         None \<Rightarrow> False
       | Some ref \<Rightarrow> sublist (toLowerCase t) (toLowerCase ref)))"

definition spec_filter :: "cdr list \<Rightarrow> string \<Rightarrow> cdr list" where
  "spec_filter records t =
     (if t = [] \<or> list_all isWhiteSpace t then records
      else filter (spec_match t) records)"

subsection \<open>Example inputs\<close>

text \<open>
  The two records of the scenario of section 8 of the specification, and five
  backends: one whose verification of index 1 is rejected with an \<open>Error\<close>, one whose
  verification of index 1 is rejected with \<open>undefined\<close>, one that verifies every
  record, one whose list request is rejected, and one whose response has no \<open>cdrs\<close>.
\<close>

definition record_A :: cdr where
  "record_A =
     \<lparr>caller = ''A'', callee = ''B'', hash = ''h1'', ipfs_cid = None,
      status = Some ''verified'', verified = None\<rparr>"

definition record_C :: cdr where
  "record_C =
     \<lparr>caller = ''C'', callee = ''D'', hash = ''h2'', ipfs_cid = None,
      status = Some ''error'', verified = None\<rparr>"

definition api_flaky :: cdrAPI where
  "api_flaky =
     \<lparr>getAllCDRs = Inr \<lparr>response.cdrs = JArray [record_A, record_C]\<rparr>,
      verifyCDR = (\<lambda>i cid. if i = 1 then Inl (Error ''Network Error'')
                            else Inr \<lparr>verifyRes.verified = True\<rparr>)\<rparr>"

definition api_rejects_undefined :: cdrAPI where
  "api_rejects_undefined =
     \<lparr>getAllCDRs = Inr \<lparr>response.cdrs = JArray [record_A, record_C]\<rparr>,
      verifyCDR = (\<lambda>i cid. if i = 1 then Inl (Thrown JUndefined)
                            else Inr \<lparr>verifyRes.verified = True\<rparr>)\<rparr>"

definition api_ok :: cdrAPI where
  "api_ok =
     \<lparr>getAllCDRs = Inr \<lparr>response.cdrs = JArray [record_A, record_C]\<rparr>,
      verifyCDR = (\<lambda>i cid. Inr \<lparr>verifyRes.verified = True\<rparr>)\<rparr>"

definition api_down :: cdrAPI where
  "api_down =
     \<lparr>getAllCDRs = Inl (Error ''Network Error''),
      verifyCDR = (\<lambda>i cid. Inl (Error ''Network Error''))\<rparr>"

definition api_no_cdrs :: cdrAPI where
  "api_no_cdrs =
     \<lparr>getAllCDRs = Inr \<lparr>response.cdrs = JUndefined\<rparr>,
      verifyCDR = (\<lambda>i cid. Inr \<lparr>verifyRes.verified = True\<rparr>)\<rparr>"

section \<open>Properties\<close>

subsection \<open>The verification step\<close>

text \<open>
  \<open>Promise.all\<close> is fulfilled only when every promise is, and then with their values
  in order.
\<close>

lemma promise_all_Inr:
  assumes "promise_all ps = Inr xs"
  shows "length xs = length ps \<and> (\<forall>i<length ps. ps ! i = Inr (xs ! i))"
  using assms
proof (induction ps arbitrary: xs)
  case Nil
  then show ?case by simp
next
  case (Cons p ps)
  from Cons.prems obtain x ys where p: "p = Inr x" and ys: "promise_all ps = Inr ys"
    and xs: "xs = x # ys"
    by (auto split: sum.splits)
  have "length ys = length ps" and nth: "\<forall>i<length ps. ps ! i = Inr (ys ! i)"
    using Cons.IH [OF ys] by simp_all
  then show ?case
    using p xs by (auto simp: nth_Cons split: nat.splits)
qed

lemma promise_all_fulfils:
  assumes "\<forall>p\<in>set ps. \<exists>x. p = Inr x"
  shows "\<exists>xs. promise_all ps = Inr xs"
  using assms by (induction ps) auto

lemma verifiedResults_length:
  assumes "verifiedResults api records = Inr out"
  shows "length out = length records"
  using promise_all_Inr [OF assms [unfolded verifiedResults_def]] by simp

lemma verifiedResults_nth:
  assumes "verifiedResults api records = Inr out" and "i < length records"
  shows "verifyOne api i (records ! i) = Inr (out ! i)"
  using promise_all_Inr [OF assms(1) [unfolded verifiedResults_def]] assms(2)
  by (auto simp: nth_enumerate_eq)

text \<open>
  What the callback returns when it returns: the record with \<open>verified\<close> set to a
  boolean. It returns whenever the request is fulfilled, and whenever the request is
  rejected with a reason whose \<open>message\<close> can be read.
\<close>

lemma verifyOne_shape:
  assumes "verifyOne api i c = Inr c'"
  shows "\<exists>b. c' = c\<lparr>cdr.verified := Some b\<rparr>"
  using assms by (auto simp: verifyOne_def split: sum.splits)

lemma verifyOne_rejected_readable:
  assumes "verifyCDR api i (ipfs_cid c) = Inl err" and "read_message err = Inr msg"
  shows "verifyOne api i c = Inr (c\<lparr>cdr.verified := Some False\<rparr>)"
  using assms by (simp add: verifyOne_def)

lemma verifyOne_rejected_unreadable:
  assumes "verifyCDR api i (ipfs_cid c) = Inl err" and "read_message err = Inl e"
  shows "verifyOne api i c = Inl e"
  using assms by (simp add: verifyOne_def)

text \<open>
  When the verification step is fulfilled, its result has the length and the order of
  its input, and every record of it has a boolean \<open>verified\<close>. The step is fulfilled
  when the \<open>message\<close> of every rejection can be read.
\<close>

lemma verifiedResults_shape:
  assumes "verifiedResults api records = Inr out"
  shows "length out = length records \<and>
     (\<forall>i<length records. \<exists>b. out ! i = (records ! i)\<lparr>cdr.verified := Some b\<rparr>)"
  using verifiedResults_length [OF assms] verifiedResults_nth [OF assms] verifyOne_shape
  by blast

lemma verifiedResults_fulfils:
  assumes "\<forall>i<length records. \<forall>err.
      verifyCDR api i (ipfs_cid (records ! i)) = Inl err \<longrightarrow> (\<exists>msg. read_message err = Inr msg)"
  shows "\<exists>out. verifiedResults api records = Inr out"
proof -
  have "\<exists>x. verifyOne api i (records ! i) = Inr x" if lt: "i < length records" for i
  proof (cases "verifyCDR api i (ipfs_cid (records ! i))")
    case (Inl err)
    then obtain msg where "read_message err = Inr msg"
      using assms lt by blast
    then show ?thesis
      using Inl by (simp add: verifyOne_def)
  next
    case (Inr res)
    then show ?thesis
      by (simp add: verifyOne_def)
  qed
  then have "\<forall>p\<in>set (map (\<lambda>(i, c). verifyOne api i c) (enumerate 0 records)).
      \<exists>x. p = Inr x"
    by (auto simp: in_set_enumerate_eq)
  then show ?thesis
    unfolding verifiedResults_def by (rule promise_all_fulfils)
qed

text \<open>
  C1. The claim fails on the code. For the two records of the scenario and a backend
  whose verification of index 1 is rejected with \<open>undefined\<close>, the read of
  \<open>err.message\<close> at line 34 throws inside the \<open>catch\<close> block, the callback rejects, and
  the verification step is rejected with the TypeError: it returns no sequence.
\<close>

theorem verifiedResults_rejects_on_undefined_reason:
  "verifiedResults api_rejects_undefined [record_A, record_C] =
     Inl (Error ''TypeError: Cannot read properties of undefined or null'')"
  by (simp add: verifiedResults_def verifyOne_def api_rejects_undefined_def)

text \<open>
  C2. The claim fails on the code. With the same backend the verification request for
  index 1 fails, and the failure reaches the caller of the verification step: the
  callback for index 1 rejects, the cycle takes the outer \<open>catch\<close>, sets the error
  message and publishes no record, the verified record of index 0 included.
\<close>

theorem failed_verification_propagates:
  "verifyCDR api_rejects_undefined 1 (ipfs_cid record_C) = Inl (Thrown JUndefined) \<and>
   verifyOne api_rejects_undefined 1 record_C =
     Inl (Error ''TypeError: Cannot read properties of undefined or null'') \<and>
   verifyOne api_rejects_undefined 0 record_A = Inr (record_A\<lparr>cdr.verified := Some True\<rparr>) \<and>
   fetchCDRs api_rejects_undefined 5000 =
     [SetLoading True, SetError None,
      SetError (Some ''Failed to fetch CDR data. Please check if the backend is running.''),
      SetLoading False] \<and>
   state.cdrs (run (fetchCDRs api_rejects_undefined 5000) (initial 0)) = []"
  by (simp add: fetchCDRs_def fetch_try_def verifiedResults_def verifyOne_def
      api_rejects_undefined_def run_def initial_def)

text \<open>
  C7. When the verification request for index \<open>i\<close> is fulfilled, the callback returns
  the input record with only \<open>verified\<close> set, to the boolean of the answer; and in
  every result of the verification step the record at index \<open>i\<close> is that record:
  \<open>caller\<close>, \<open>callee\<close>, \<open>hash\<close>, \<open>ipfs_cid\<close> and \<open>status\<close> are unchanged.
\<close>

theorem successful_verification_sets_only_verified:
  assumes "i < length records"
    and "verifyCDR api i (ipfs_cid (records ! i)) = Inr res"
  shows "verifyOne api i (records ! i) =
           Inr ((records ! i)\<lparr>cdr.verified := Some (verifyRes.verified res)\<rparr>) \<and>
         (\<forall>out. verifiedResults api records = Inr out \<longrightarrow>
            out ! i = (records ! i)\<lparr>cdr.verified := Some (verifyRes.verified res)\<rparr> \<and>
            caller (out ! i) = caller (records ! i) \<and>
            callee (out ! i) = callee (records ! i) \<and>
            hash (out ! i) = hash (records ! i) \<and>
            ipfs_cid (out ! i) = ipfs_cid (records ! i) \<and>
            status (out ! i) = status (records ! i) \<and>
            cdr.verified (out ! i) = Some (verifyRes.verified res))"
proof -
  have one: "verifyOne api i (records ! i) =
      Inr ((records ! i)\<lparr>cdr.verified := Some (verifyRes.verified res)\<rparr>)"
    using assms(2) by (simp add: verifyOne_def)
  have "out ! i = (records ! i)\<lparr>cdr.verified := Some (verifyRes.verified res)\<rparr>"
    if "verifiedResults api records = Inr out" for out
    using verifiedResults_nth [OF that assms(1)] one by simp
  then show ?thesis
    using one by simp
qed

text \<open>
  The theorem above at index 0 of the scenario, where \<open>api_flaky\<close> answers \<open>true\<close> and
  the verification step is fulfilled although the request for index 1 is rejected.
\<close>

theorem successful_verification_sets_only_verified_witness:
  "verifyCDR api_flaky 0 (ipfs_cid ([record_A, record_C] ! 0)) =
     Inr \<lparr>verifyRes.verified = True\<rparr> \<and>
   verifyOne api_flaky 0 record_A = Inr (record_A\<lparr>cdr.verified := Some True\<rparr>) \<and>
   verifiedResults api_flaky [record_A, record_C] =
     Inr [record_A\<lparr>cdr.verified := Some True\<rparr>, record_C\<lparr>cdr.verified := Some False\<rparr>] \<and>
   status ([record_A\<lparr>cdr.verified := Some True\<rparr>,
            record_C\<lparr>cdr.verified := Some False\<rparr>] ! 0) = status record_A"
proof -
  have i: "(0::nat) < length [record_A, record_C]"
    by simp
  have succeeds: "verifyCDR api_flaky 0 (ipfs_cid ([record_A, record_C] ! 0)) =
      Inr \<lparr>verifyRes.verified = True\<rparr>"
    by (simp add: api_flaky_def)
  have step: "verifiedResults api_flaky [record_A, record_C] =
      Inr [record_A\<lparr>cdr.verified := Some True\<rparr>, record_C\<lparr>cdr.verified := Some False\<rparr>]"
    by (simp add: verifiedResults_def verifyOne_def api_flaky_def)
  show ?thesis
    using successful_verification_sets_only_verified [OF i succeeds] succeeds step
    by simp
qed

subsection \<open>The refresh cycle\<close>

lemma fetch_try_rejected:
  assumes "getAllCDRs api = Inl err"
  shows "fetch_try api = Inl err"
  using assms by (simp add: fetch_try_def)

lemma fetch_try_falsy:
  assumes "getAllCDRs api = Inr response" and "\<not> truthy (response.cdrs response)"
  shows "fetch_try api = Inr []"
  using assms by (simp add: fetch_try_def verifiedResults_def)

lemma fetch_try_array:
  assumes "getAllCDRs api = Inr response" and "response.cdrs response = JArray records"
  shows "fetch_try api = verifiedResults api records"
  using assms by (simp add: fetch_try_def)

text \<open>
  One whole cycle from the initial state, with a verification of index 1 rejected
  with an \<open>Error\<close>: both records are published, the second one with
  \<open>verified = false\<close>, and no error is shown.
\<close>

lemma refresh_example:
  "run (fetchCDRs api_flaky 5000) (initial 0) =
     \<lparr>state.cdrs = [record_A\<lparr>cdr.verified := Some True\<rparr>,
                    record_C\<lparr>cdr.verified := Some False\<rparr>],
      filteredCdrs = [], loading = False, error = None, searchTerm = [],
      lastRefresh = 5000\<rparr>"
  by (simp add: fetchCDRs_def fetch_try_def api_flaky_def verifiedResults_def verifyOne_def
      run_def initial_def)

text \<open>
  C5. When the list request of a refresh cycle is rejected, the cycle performs four
  effects, none of them on \<open>cdrs\<close>: the records held before are the records held
  after, and \<open>error\<close> is the fixed message of line 44, which is not empty.
\<close>

theorem fetch_failure_keeps_records:
  assumes "getAllCDRs api = Inl err"
  shows "fetchCDRs api now =
           [SetLoading True, SetError None,
            SetError (Some ''Failed to fetch CDR data. Please check if the backend is running.''),
            SetLoading False] \<and>
         state.cdrs (run (fetchCDRs api now) st) = state.cdrs st \<and>
         error (run (fetchCDRs api now) st) =
           Some ''Failed to fetch CDR data. Please check if the backend is running.'' \<and>
         error (run (fetchCDRs api now) st) \<noteq> Some []"
  using fetch_try_rejected [OF assms] by (simp add: fetchCDRs_def run_def)

text \<open>
  The theorem above for a backend that is down and a state that holds one record.
\<close>

theorem fetch_failure_keeps_records_witness:
  "state.cdrs (run (fetchCDRs api_down 5000) ((initial 0)\<lparr>state.cdrs := [record_A]\<rparr>)) =
     [record_A] \<and>
   error (run (fetchCDRs api_down 5000) ((initial 0)\<lparr>state.cdrs := [record_A]\<rparr>)) =
     Some ''Failed to fetch CDR data. Please check if the backend is running.''"
proof -
  have down: "getAllCDRs api_down = Inl (Error ''Network Error'')"
    by (simp add: api_down_def)
  show ?thesis
    using fetch_failure_keeps_records [OF down, of 5000 "(initial 0)\<lparr>state.cdrs := [record_A]\<rparr>"]
    by (simp add: run_def)
qed

text \<open>
  C6 as stated, that \<open>lastRefresh\<close> is updated after every cycle, fails: with a
  backend that is down, a cycle that completes at time 5000 from the state initialised
  at time 0 leaves \<open>lastRefresh\<close> at 0. \<open>setLastRefresh\<close> is called at the end of the
  \<open>try\<close> block only (line 41).
\<close>

theorem lastRefresh_kept_on_failure_counterexample:
  "lastRefresh (run (fetchCDRs api_down 5000) (initial 0)) = 0 \<and>
   lastRefresh (run (fetchCDRs api_down 5000) (initial 0)) \<noteq> 5000"
  by (simp add: fetchCDRs_def fetch_try_def api_down_def run_def initial_def)

text \<open>
  C6, amended. A refresh cycle that succeeds sets \<open>lastRefresh\<close> to the time of its
  completion: one whose list request is fulfilled with a falsy \<open>cdrs\<close>, and one whose
  list request is fulfilled with an array of records that the verification step
  returns annotated. A cycle whose list request is rejected leaves \<open>lastRefresh\<close> as
  it was.
\<close>

theorem lastRefresh_updated_on_success_only:
  "(\<forall>response.
      getAllCDRs api = Inr response \<longrightarrow> \<not> truthy (response.cdrs response) \<longrightarrow>
      lastRefresh (run (fetchCDRs api now) st) = now) \<and>
   (\<forall>response records out.
      getAllCDRs api = Inr response \<longrightarrow> response.cdrs response = JArray records \<longrightarrow>
      verifiedResults api records = Inr out \<longrightarrow>
      lastRefresh (run (fetchCDRs api now) st) = now) \<and>
   (\<forall>err. getAllCDRs api = Inl err \<longrightarrow>
      lastRefresh (run (fetchCDRs api now) st) = lastRefresh st)"
proof -
  have "lastRefresh (run (fetchCDRs api now) st) = now"
    if "getAllCDRs api = Inr response" and "\<not> truthy (response.cdrs response)"
    for response
    using fetch_try_falsy [OF that] by (simp add: fetchCDRs_def run_def)
  moreover have "lastRefresh (run (fetchCDRs api now) st) = now"
    if up: "getAllCDRs api = Inr response" and array: "response.cdrs response = JArray records"
      and step: "verifiedResults api records = Inr out"
    for response records out
    using fetch_try_array [OF up array] step by (simp add: fetchCDRs_def run_def)
  moreover have "lastRefresh (run (fetchCDRs api now) st) = lastRefresh st"
    if "getAllCDRs api = Inl err" for err
    using fetch_try_rejected [OF that] by (simp add: fetchCDRs_def run_def)
  ultimately show ?thesis
    by blast
qed

text \<open>
  The theorem above for a response with no \<open>cdrs\<close>, for a backend that answers every
  request, and for one that is down.
\<close>

theorem lastRefresh_updated_on_success_only_witness:
  "lastRefresh (run (fetchCDRs api_no_cdrs 5000) (initial 0)) = 5000 \<and>
   lastRefresh (run (fetchCDRs api_ok 5000) (initial 0)) = 5000 \<and>
   lastRefresh (run (fetchCDRs api_down 5000) (initial 0)) = lastRefresh (initial 0)"
proof -
  have none: "getAllCDRs api_no_cdrs = Inr \<lparr>response.cdrs = JUndefined\<rparr>"
    by (simp add: api_no_cdrs_def)
  have falsy: "\<not> truthy (response.cdrs \<lparr>response.cdrs = JUndefined\<rparr>)"
    by simp
  have up: "getAllCDRs api_ok = Inr \<lparr>response.cdrs = JArray [record_A, record_C]\<rparr>"
    by (simp add: api_ok_def)
  have array: "response.cdrs \<lparr>response.cdrs = JArray [record_A, record_C]\<rparr> =
      JArray [record_A, record_C]"
    by simp
  have step: "verifiedResults api_ok [record_A, record_C] =
      Inr [record_A\<lparr>cdr.verified := Some True\<rparr>, record_C\<lparr>cdr.verified := Some True\<rparr>]"
    by (simp add: verifiedResults_def verifyOne_def api_ok_def)
  have down: "getAllCDRs api_down = Inl (Error ''Network Error'')"
    by (simp add: api_down_def)
  show ?thesis
    using lastRefresh_updated_on_success_only [of api_no_cdrs 5000 "initial 0"]
      lastRefresh_updated_on_success_only [of api_ok 5000 "initial 0"]
      lastRefresh_updated_on_success_only [of api_down 5000 "initial 0"]
      none falsy up array step down
    by blast
qed

text \<open>
  C8. Every refresh cycle starts with \<open>setLoading(true)\<close> and \<open>setError(null)\<close>, after
  which \<open>loading\<close> is true and \<open>error\<close> is clear, and ends with \<open>setLoading(false)\<close>,
  after which \<open>loading\<close> is false, whatever the backend does.
\<close>

theorem loading_set_and_cleared:
  "(\<exists>mid. fetchCDRs api now = [SetLoading True, SetError None] @ mid @ [SetLoading False]) \<and>
   loading (run [SetLoading True, SetError None] st) = True \<and>
   error (run [SetLoading True, SetError None] st) = None \<and>
   loading (run (fetchCDRs api now) st) = False"
  by (simp add: fetchCDRs_def run_def)

text \<open>
  C10. When the list request is fulfilled with a response whose \<open>cdrs\<close> is falsy
  (absent, \<open>null\<close>, \<open>false\<close>, 0, NaN or the empty string), the cycle publishes the empty
  sequence of records and completes as a successful one: \<open>error\<close> stays clear and
  \<open>lastRefresh\<close> is set.
\<close>

theorem missing_cdrs_is_empty:
  assumes "getAllCDRs api = Inr response" and "\<not> truthy (response.cdrs response)"
  shows "fetchCDRs api now =
           [SetLoading True, SetError None, SetCdrs [], SetLastRefresh now, SetLoading False] \<and>
         state.cdrs (run (fetchCDRs api now) st) = [] \<and>
         error (run (fetchCDRs api now) st) = None \<and>
         loading (run (fetchCDRs api now) st) = False"
  using fetch_try_falsy [OF assms] by (simp add: fetchCDRs_def run_def)

text \<open>
  The theorem above for a response with no \<open>cdrs\<close> and a state that holds one record.
\<close>

theorem missing_cdrs_is_empty_witness:
  "state.cdrs (run (fetchCDRs api_no_cdrs 5000) ((initial 0)\<lparr>state.cdrs := [record_A]\<rparr>)) = [] \<and>
   error (run (fetchCDRs api_no_cdrs 5000) ((initial 0)\<lparr>state.cdrs := [record_A]\<rparr>)) = None"
proof -
  have up: "getAllCDRs api_no_cdrs = Inr \<lparr>response.cdrs = JUndefined\<rparr>"
    by (simp add: api_no_cdrs_def)
  have falsy: "\<not> truthy (response.cdrs \<lparr>response.cdrs = JUndefined\<rparr>)"
    by simp
  show ?thesis
    using missing_cdrs_is_empty [OF up falsy, of 5000 "(initial 0)\<lparr>state.cdrs := [record_A]\<rparr>"]
    by (simp add: run_def)
qed

subsection \<open>The search filter\<close>

lemma startsWith_prefix: "startsWith s t = prefix t s"
  by (induction s t rule: startsWith.induct) auto

lemma includes_str_sublist: "includes_str s t = sublist t s"
  by (induction s) (simp_all add: startsWith_prefix sublist_Cons_right)

lemma dropWhile_all: "(\<forall>x\<in>set (dropWhile P xs). P x) = (dropWhile P xs = [])"
proof
  assume all: "\<forall>x\<in>set (dropWhile P xs). P x"
  show "dropWhile P xs = []"
  proof (rule ccontr)
    assume ne: "dropWhile P xs \<noteq> []"
    then have "\<not> P (hd (dropWhile P xs))"
      by (rule hd_dropWhile)
    moreover have "hd (dropWhile P xs) \<in> set (dropWhile P xs)"
      using ne by simp
    ultimately show False
      using all by blast
  qed
next
  assume "dropWhile P xs = []"
  then show "\<forall>x\<in>set (dropWhile P xs). P x"
    by (metis empty_iff empty_set)
qed

text \<open>
  \<open>trim\<close> leaves nothing exactly when every code unit is white space (of the empty
  string, too).
\<close>

lemma trim_empty: "(trim s = []) = list_all isWhiteSpace s"
  by (simp add: trim_def dropWhile_eq_Nil_conv dropWhile_all list_all_iff)

text \<open>
  The test for presence of line 61 also rejects an empty \<open>ipfs_cid\<close>; a term that is
  not empty is no substring of the empty string, so nothing is lost.
\<close>

lemma matches_spec_match:
  assumes "t \<noteq> []"
  shows "matches t c = spec_match t c"
  using assms
  by (cases "ipfs_cid c")
    (auto simp: matches_def spec_match_def includes_str_sublist toLowerCase_def)

text \<open>
  C4. For every state and every search term, the one effect of \<open>filterCDRs\<close> is to set
  \<open>filteredCdrs\<close> to the filter of the specification over the records of the state:
  the records themselves when the term is empty or white space only, otherwise the
  records, in their order, of which one of lowercase \<open>caller\<close>, \<open>callee\<close>, \<open>hash\<close> or
  (when present) \<open>ipfs_cid\<close> has the lowercase term as a substring.
\<close>

theorem filterCDRs_refines_spec:
  "filterCDRs st t = [SetFilteredCdrs (spec_filter (state.cdrs st) t)] \<and>
   filteredCdrs (run (filterCDRs st t) st) = spec_filter (state.cdrs st) t"
proof -
  have "filterCDRs st t = [SetFilteredCdrs (spec_filter (state.cdrs st) t)]"
  proof (cases "list_all isWhiteSpace t")
    case True
    then show ?thesis
      by (simp add: filterCDRs_def spec_filter_def trim_empty)
  next
    case False
    then have "t \<noteq> []"
      by auto
    then have "matches t = spec_match t"
      by (intro ext) (rule matches_spec_match)
    then have "filter (matches t) (state.cdrs st) = filter (spec_match t) (state.cdrs st)"
      by simp
    with False \<open>t \<noteq> []\<close> show ?thesis
      by (simp add: filterCDRs_def spec_filter_def trim_empty)
  qed
  then show ?thesis
    by (simp add: run_def)
qed

text \<open>
  The scenario of section 8: the term \<open>a\<close> keeps the first record only, by its caller
  \<open>A\<close>; the empty term and three spaces keep both.
\<close>

lemma filterCDRs_scenario:
  "filteredCdrs (run (filterCDRs (st\<lparr>state.cdrs := [record_A, record_C]\<rparr>) ''a'')
      (st\<lparr>state.cdrs := [record_A, record_C]\<rparr>)) = [record_A]"
  by (simp add: run_def filterCDRs_def trim_def isWhiteSpace_def matches_def record_A_def
      record_C_def toLowerCase_def toLower_def char_of_def bit_Suc_0_iff)

lemma filterCDRs_blank:
  "filteredCdrs (run (filterCDRs st []) st) = state.cdrs st \<and>
   filteredCdrs (run (filterCDRs st ''   '') st) = state.cdrs st"
  by (simp add: run_def filterCDRs_def trim_def isWhiteSpace_def)

subsection \<open>The statistics\<close>

text \<open>
  C3. For every state, \<open>getStats\<close> returns the number of records as \<open>total\<close>, and as
  \<open>verified\<close>, \<open>withIPFS\<close> and \<open>errors\<close> the number of indices whose record has status
  \<open>verified\<close> or \<open>verified = true\<close>, a present and non-empty \<open>ipfs_cid\<close>, and status
  \<open>error\<close> or \<open>mismatch\<close>. It returns four zeros for no records, \<open>verified = 2\<close> for
  two records of which one has status \<open>verified\<close> and the other \<open>verified = true\<close> with
  no status, and 2, 1, 0, 1 for the two records of the scenario of section 8.
\<close>

theorem getStats_counts:
  "getStats st =
     \<lparr>total = length (state.cdrs st),
      stats.verified =
        card {i. i < length (state.cdrs st) \<and>
                 (status (state.cdrs st ! i) = Some ''verified'' \<or>
                  cdr.verified (state.cdrs st ! i) = Some True)},
      withIPFS =
        card {i. i < length (state.cdrs st) \<and>
                 (\<exists>cid. ipfs_cid (state.cdrs st ! i) = Some cid \<and> cid \<noteq> [])},
      errors =
        card {i. i < length (state.cdrs st) \<and>
                 (status (state.cdrs st ! i) = Some ''error'' \<or>
                  status (state.cdrs st ! i) = Some ''mismatch'')}\<rparr> \<and>
   getStats (st\<lparr>state.cdrs := []\<rparr>) =
     \<lparr>total = 0, stats.verified = 0, withIPFS = 0, errors = 0\<rparr> \<and>
   stats.verified (getStats (st\<lparr>state.cdrs :=
     [r1\<lparr>status := Some ''verified''\<rparr>,
      r2\<lparr>status := None, cdr.verified := Some True\<rparr>]\<rparr>)) = 2 \<and>
   getStats (st\<lparr>state.cdrs := [record_A, record_C]\<rparr>) =
     \<lparr>total = 2, stats.verified = 1, withIPFS = 0, errors = 1\<rparr>"
proof -
  have present: "(case ipfs_cid c of None \<Rightarrow> False | Some cid \<Rightarrow> cid \<noteq> []) =
      (\<exists>cid. ipfs_cid c = Some cid \<and> cid \<noteq> [])" for c :: cdr
    by (cases "ipfs_cid c") simp_all
  have general: "getStats st =
     \<lparr>total = length (state.cdrs st),
      stats.verified =
        card {i. i < length (state.cdrs st) \<and>
                 (status (state.cdrs st ! i) = Some ''verified'' \<or>
                  cdr.verified (state.cdrs st ! i) = Some True)},
      withIPFS =
        card {i. i < length (state.cdrs st) \<and>
                 (\<exists>cid. ipfs_cid (state.cdrs st ! i) = Some cid \<and> cid \<noteq> [])},
      errors =
        card {i. i < length (state.cdrs st) \<and>
                 (status (state.cdrs st ! i) = Some ''error'' \<or>
                  status (state.cdrs st ! i) = Some ''mismatch'')}\<rparr>"
    unfolding getStats_def present by (simp only: length_filter_conv_card)
  have empty: "getStats (st\<lparr>state.cdrs := []\<rparr>) =
     \<lparr>total = 0, stats.verified = 0, withIPFS = 0, errors = 0\<rparr>"
    by (simp add: getStats_def)
  have two: "stats.verified (getStats (st\<lparr>state.cdrs :=
     [r1\<lparr>status := Some ''verified''\<rparr>,
      r2\<lparr>status := None, cdr.verified := Some True\<rparr>]\<rparr>)) = 2"
    by (simp add: getStats_def)
  have scenario: "getStats (st\<lparr>state.cdrs := [record_A, record_C]\<rparr>) =
     \<lparr>total = 2, stats.verified = 1, withIPFS = 0, errors = 1\<rparr>"
    by (simp add: getStats_def record_A_def record_C_def)
  show ?thesis
    using general empty two scenario by (intro conjI)
qed

text \<open>
  C9. The statistics do not depend on the search term: after a search for any two
  terms from the same state, and in any two states that differ in the search term
  only, \<open>getStats\<close> returns the same value, that of the state before the search.
\<close>

theorem getStats_ignores_search_term:
  "getStats (run (handleSearch st t1) st) = getStats (run (handleSearch st t2) st) \<and>
   getStats (st\<lparr>searchTerm := t1\<rparr>) = getStats (st\<lparr>searchTerm := t2\<rparr>) \<and>
   getStats (run (handleSearch st t1) st) = getStats st"
  by (simp add: getStats_def run_def handleSearch_def filterCDRs_def)

end
